theory Spec2Isabelle
  imports Main "HOL-Library.Word"
begin

section \<open>The logging framework's declarations used by the hook\<close>

text \<open>
  The hook is written against the logrus package. Its severity type is an unsigned
  32-bit integer whose constants are declared with \<^verbatim>\<open>iota\<close> in the order
  panic, fatal, error, warn, info, debug, so the most severe level is the number 0:
  \<^verbatim>\<open>
  type Level uint32
  const ( PanicLevel Level = iota; FatalLevel; ErrorLevel; WarnLevel; InfoLevel; DebugLevel )
  \<close>
\<close>

type_synonym Level = "32 word"

definition PanicLevel :: Level where "PanicLevel = 0"
definition FatalLevel :: Level where "FatalLevel = 1"
definition ErrorLevel :: Level where "ErrorLevel = 2"
definition WarnLevel :: Level where "WarnLevel = 3"
definition InfoLevel :: Level where "InfoLevel = 4"
definition DebugLevel :: Level where "DebugLevel = 5"

text \<open>\<^verbatim>\<open>Level.String()\<close>: the name of a level, \<^verbatim>\<open>"unknown"\<close> for any other number.\<close>

definition Level_String :: "Level \<Rightarrow> string" where
  "Level_String level =
     (if level = DebugLevel then ''debug''
      else if level = InfoLevel then ''info''
      else if level = WarnLevel then ''warning''
      else if level = ErrorLevel then ''error''
      else if level = FatalLevel then ''fatal''
      else if level = PanicLevel then ''panic''
      else ''unknown'')"

text \<open>
  A field value of a log entry has type \<^verbatim>\<open>interface{}\<close>. The model covers strings,
  integers, booleans and nil.
\<close>

datatype val = VString string | VInt int | VBool bool | VNil

text \<open>
  \<^verbatim>\<open>logrus.Fields\<close> is \<^verbatim>\<open>map[string]interface{}\<close>. The list gives the order in which
  one \<^verbatim>\<open>range\<close> loop visits the map; Go leaves that order open, and a Go map holds
  each key once.
\<close>

type_synonym Fields = "(string \<times> val) list"

text \<open>An instant, in nanoseconds since the Unix epoch.\<close>

type_synonym Time = int

record Entry =
  Data :: Fields
  Time :: Time
  Level :: Level
  Message :: string

section \<open>Library functions\<close>

text \<open>
  \<^verbatim>\<open>strings.ToLower\<close> on the ASCII letters. (Go also maps letters outside ASCII, each
  to a letter other than \<^verbatim>\<open>v\<close>, and leaves digits alone.)
\<close>

definition ToLower_byte :: "char \<Rightarrow> char" where
  "ToLower_byte c =
     (case map_of (zip ''ABCDEFGHIJKLMNOPQRSTUVWXYZ'' ''abcdefghijklmnopqrstuvwxyz'') c of
        Some l \<Rightarrow> l
      | None \<Rightarrow> c)"

definition ToLower :: "string \<Rightarrow> string" where
  "ToLower s = map ToLower_byte s"

text \<open>\<^verbatim>\<open>fmt.Sprintf("%d", n)\<close> and \<^verbatim>\<open>fmt.Sprintf("%v", value)\<close>.\<close>

definition digit :: "nat \<Rightarrow> char" where
  "digit d = ''0123456789'' ! d"

fun decimal :: "nat \<Rightarrow> string" where
  "decimal n = (if n < 10 then [digit n] else decimal (n div 10) @ [digit (n mod 10)])"

declare decimal.simps [simp del]

definition Sprintf_d :: "int \<Rightarrow> string" where
  "Sprintf_d i = (if i < 0 then ''-'' @ decimal (nat (- i)) else decimal (nat i))"

fun Sprintf_v :: "val \<Rightarrow> string" where
  "Sprintf_v (VString s) = s"
| "Sprintf_v (VInt i) = Sprintf_d i"
| "Sprintf_v (VBool b) = (if b then ''true'' else ''false'')"
| "Sprintf_v VNil = ''<nil>''"

text \<open>
  What the code reads from its surroundings: the result of \<^verbatim>\<open>os.Hostname()\<close>
  (\<open>Inl\<close> its error) and how \<^verbatim>\<open>Time.UTC().Format(time.RFC3339Nano)\<close> prints an
  instant.
\<close>

type_synonym error = string

record env =
  os_Hostname :: "error + string"
  Format_RFC3339Nano :: "Time \<Rightarrow> string"

section \<open>The hook's data\<close>

text \<open>The address a connection pool dials (\<^verbatim>\<open>newRedisConnectionPool\<close>).\<close>

record Pool =
  hostPort :: string
  MaxIdle :: nat
  IdleTimeout :: nat

definition newRedisConnectionPool :: "string \<Rightarrow> int \<Rightarrow> Pool" where
  "newRedisConnectionPool server port =
     \<lparr>hostPort = server @ '':'' @ Sprintf_d port, MaxIdle = 3, IdleTimeout = 240\<rparr>"

text \<open>
  A channel field holds \<open>None\<close> for nil, or the address of a channel in the store of
  the world below.
\<close>

record RedisHook =
  RedisPool :: Pool
  RedisHost :: string
  RedisKey :: string
  LogstashFormat :: string
  RedisPort :: int
  Level :: Level
  Async :: bool
  EntryQueue :: "nat option"
  Quit :: "nat option"

text \<open>The anonymous struct of the \<^verbatim>\<open>Fields\<close> member of both message types.\<close>

record MessageFields =
  File :: string
  Level :: string
  Timestamp :: string

record LogstashMessageV0 =
  Type :: string
  Timestamp :: string
  Sourcehost :: string
  Message :: string
  Level :: string
  Fields :: MessageFields
  CustomFields :: "string \<rightharpoonup> string"

record LogstashMessageV1 =
  Type :: string
  Timestamp :: string
  Sourcehost :: string
  Message :: string
  Fields :: MessageFields
  CustomFields :: "string \<rightharpoonup> string"

text \<open>The zero values \<^verbatim>\<open>LogstashMessageV0{}\<close> and \<^verbatim>\<open>LogstashMessageV1{}\<close>.\<close>

definition MessageFields_zero :: MessageFields where
  "MessageFields_zero =
     \<lparr>MessageFields.File = '''', MessageFields.Level = '''', MessageFields.Timestamp = ''''\<rparr>"

definition LogstashMessageV0_zero :: LogstashMessageV0 where
  "LogstashMessageV0_zero =
     \<lparr>LogstashMessageV0.Type = '''', LogstashMessageV0.Timestamp = '''',
      LogstashMessageV0.Sourcehost = '''', LogstashMessageV0.Message = '''',
      LogstashMessageV0.Level = '''', LogstashMessageV0.Fields = MessageFields_zero,
      LogstashMessageV0.CustomFields = Map.empty\<rparr>"

definition LogstashMessageV1_zero :: LogstashMessageV1 where
  "LogstashMessageV1_zero =
     \<lparr>LogstashMessageV1.Type = '''', LogstashMessageV1.Timestamp = '''',
      LogstashMessageV1.Sourcehost = '''', LogstashMessageV1.Message = '''',
      LogstashMessageV1.Fields = MessageFields_zero,
      LogstashMessageV1.CustomFields = Map.empty\<rparr>"

text \<open>The value of \<^verbatim>\<open>var msg interface{}\<close> in \<^verbatim>\<open>processEntry\<close>.\<close>

datatype msg = NilMsg | V0Msg LogstashMessageV0 | V1Msg LogstashMessageV1

section \<open>Formatting\<close>

definition reportHostname :: "env \<Rightarrow> string" where
  "reportHostname env = (case os_Hostname env of Inl err \<Rightarrow> ''unknown'' | Inr h \<Rightarrow> h)"

text \<open>The body of the \<^verbatim>\<open>range\<close> loop of \<^verbatim>\<open>logEntryToStringMap\<close>, and the loop.\<close>

fun range_Data :: "Fields \<Rightarrow> (string \<rightharpoonup> string) \<Rightarrow> (string \<rightharpoonup> string)" where
  "range_Data [] m = m"
| "range_Data ((key, value) # rest) m =
     range_Data rest
       (case value of
          VString str \<Rightarrow> m(key \<mapsto> str)
        | _ \<Rightarrow> m(key \<mapsto> Sprintf_v value))"

definition logEntryToStringMap :: "Entry \<Rightarrow> (string \<rightharpoonup> string)" where
  "logEntryToStringMap entry =
     (let m = Map.empty
      in if length (Data entry) > 0 then range_Data (Data entry) m else m)"

definition createV0Message :: "env \<Rightarrow> Entry \<Rightarrow> LogstashMessageV0" where
  "createV0Message env entry =
     (let m = LogstashMessageV0_zero;
          m = m\<lparr>LogstashMessageV0.Timestamp := Format_RFC3339Nano env (Time entry)\<rparr>;
          m = m\<lparr>LogstashMessageV0.Sourcehost := reportHostname env\<rparr>;
          m = m\<lparr>LogstashMessageV0.Message := Entry.Message entry\<rparr>;
          m = m\<lparr>LogstashMessageV0.Fields :=
                (LogstashMessageV0.Fields m)
                  \<lparr>MessageFields.Level := Level_String (Entry.Level entry)\<rparr>\<rparr>;
          m = m\<lparr>LogstashMessageV0.CustomFields := logEntryToStringMap entry\<rparr>
      in m)"

definition createV1Message :: "env \<Rightarrow> Entry \<Rightarrow> LogstashMessageV1" where
  "createV1Message env entry =
     (let m = LogstashMessageV1_zero;
          m = m\<lparr>LogstashMessageV1.Timestamp := Format_RFC3339Nano env (Time entry)\<rparr>;
          m = m\<lparr>LogstashMessageV1.Sourcehost := reportHostname env\<rparr>;
          m = m\<lparr>LogstashMessageV1.Message := Entry.Message entry\<rparr>;
          m = m\<lparr>LogstashMessageV1.Fields :=
                (LogstashMessageV1.Fields m)
                  \<lparr>MessageFields.Level := Level_String (Entry.Level entry)\<rparr>\<rparr>;
          m = m\<lparr>LogstashMessageV1.CustomFields := logEntryToStringMap entry\<rparr>
      in m)"

section \<open>Serialisation\<close>

text \<open>
  A JSON document as \<^verbatim>\<open>json.Marshal\<close> writes it: an object lists its members in
  the order of the struct's fields, under the names of their \<^verbatim>\<open>json\<close> tags; a
  \<^verbatim>\<open>map[string]string\<close> is an object over its keys.
\<close>

datatype json =
  JNull
| JString string
| JObject "(string \<times> json) list"
| JStringMap "string \<rightharpoonup> string"

text \<open>A string member tagged \<^verbatim>\<open>omitempty\<close> is left out when it is empty.\<close>

definition omitempty :: "string \<Rightarrow> string \<Rightarrow> (string \<times> json) list" where
  "omitempty name s = (if s = '''' then [] else [(name, JString s)])"

definition Marshal_Fields :: "MessageFields \<Rightarrow> json" where
  "Marshal_Fields f =
     JObject
       [(''file'', JString (MessageFields.File f)),
        (''level'', JString (MessageFields.Level f)),
        (''timestamp'', JString (MessageFields.Timestamp f))]"

text \<open>
  \<^verbatim>\<open>json.Marshal\<close> of the three values \<^verbatim>\<open>msg\<close> can hold. It returns no error on
  any of them; a nil interface is written as \<^verbatim>\<open>null\<close>.
\<close>

fun json_Marshal :: "msg \<Rightarrow> error + json" where
  "json_Marshal NilMsg = Inr JNull"
| "json_Marshal (V0Msg m) =
     Inr (JObject
       (omitempty ''@type'' (LogstashMessageV0.Type m) @
        [(''@timestamp'', JString (LogstashMessageV0.Timestamp m)),
         (''@source_host'', JString (LogstashMessageV0.Sourcehost m)),
         (''@message'', JString (LogstashMessageV0.Message m)),
         (''@level'', JString (LogstashMessageV0.Level m)),
         (''@fields'', Marshal_Fields (LogstashMessageV0.Fields m)),
         (''@custom_fields'', JStringMap (LogstashMessageV0.CustomFields m))]))"
| "json_Marshal (V1Msg m) =
     Inr (JObject
       (omitempty ''@type'' (LogstashMessageV1.Type m) @
        [(''@timestamp'', JString (LogstashMessageV1.Timestamp m)),
         (''host'', JString (LogstashMessageV1.Sourcehost m)),
         (''message'', JString (LogstashMessageV1.Message m)),
         (''@fields'', Marshal_Fields (LogstashMessageV1.Fields m)),
         (''@custom_fields'', JStringMap (LogstashMessageV1.CustomFields m))]))"

section \<open>The world outside the hook\<close>

text \<open>
  A buffered channel: the values in its buffer (oldest first), its capacity, whether a
  goroutine is parked in a receive on it (the buffer is empty then), and the values that
  were handed to a parked receiver directly. No channel of this program is ever closed.
\<close>

record 'a chan =
  buf :: "'a list"
  cap :: nat
  receiver_parked :: bool
  handed :: "'a list"

text \<open>
  A send that does not block (a \<^verbatim>\<open>select\<close> case with a \<^verbatim>\<open>default\<close>): it goes to a
  parked receiver, or into the buffer when there is room; otherwise it is not ready.
\<close>

definition try_send :: "'a chan \<Rightarrow> 'a \<Rightarrow> 'a chan option" where
  "try_send c x =
     (if receiver_parked c then Some (c\<lparr>receiver_parked := False, handed := handed c @ [x]\<rparr>)
      else if length (buf c) < cap c then Some (c\<lparr>buf := buf c @ [x]\<rparr>)
      else None)"

text \<open>
  The state the code acts on: the store behind the pool (the error a command on a
  borrowed connection meets, \<open>None\<close> when the server answers, and the lists by key), the
  channels by address, the goroutines started (each runs \<^verbatim>\<open>asyncProcessing\<close> of its
  hook) and the lines printed to standard output. \<open>makechan_limit\<close> is the largest
  capacity for which the runtime allocates a channel of entry pointers (the allocator's
  limit, less the channel header, over the size of a pointer); it depends on the
  platform.
\<close>

record world =
  redis_err :: "error option"
  redis_lists :: "string \<Rightarrow> json list"
  entry_chans :: "nat \<rightharpoonup> Entry chan"
  int_chans :: "nat \<rightharpoonup> int chan"
  next_chan :: nat
  makechan_limit :: nat
  goroutines :: "RedisHook list"
  stdout :: "string list"

definition conn_Do_PING :: "world \<Rightarrow> error option" where
  "conn_Do_PING w = redis_err w"

definition conn_Do_RPUSH :: "string \<Rightarrow> json \<Rightarrow> world \<Rightarrow> error option \<times> world" where
  "conn_Do_RPUSH key v w =
     (case redis_err w of
        Some err \<Rightarrow> (Some err, w)
      | None \<Rightarrow> (None, w\<lparr>redis_lists := (redis_lists w)(key := redis_lists w key @ [v])\<rparr>))"

definition Println :: "string \<Rightarrow> world \<Rightarrow> world" where
  "Println s w = w\<lparr>stdout := stdout w @ [s]\<rparr>"

text \<open>
  \<^verbatim>\<open>make(chan *logrus.Entry, n)\<close>: the runtime panics with
  \<^verbatim>\<open>makechan: size out of range\<close> when the size is negative or beyond its limit
  (\<open>None\<close>), and allocates an empty channel of that capacity otherwise.
\<close>

definition make_entry_chan :: "int \<Rightarrow> world \<Rightarrow> (nat \<times> world) option" where
  "make_entry_chan n w =
     (if n < 0 \<or> int (makechan_limit w) < n then None
      else Some
        (next_chan w,
         w\<lparr>entry_chans := (entry_chans w)(next_chan w \<mapsto>
               \<lparr>buf = [], cap = nat n, receiver_parked = False, handed = []\<rparr>),
           next_chan := next_chan w + 1\<rparr>))"

text \<open>\<^verbatim>\<open>make(chan int)\<close>: an unbuffered channel; the size 0 is always in range.\<close>

definition make_int_chan :: "world \<Rightarrow> nat \<times> world" where
  "make_int_chan w =
     (next_chan w,
      w\<lparr>int_chans := (int_chans w)(next_chan w \<mapsto>
            \<lparr>buf = [], cap = 0, receiver_parked = False, handed = []\<rparr>),
        next_chan := next_chan w + 1\<rparr>)"

text \<open>
  \<^verbatim>\<open>case hook.EntryQueue <- entry:\<close> of the \<^verbatim>\<open>select\<close> in \<^verbatim>\<open>Fire\<close>: the new world
  when the send is ready. A send on a nil channel is never ready.
\<close>

definition send_EntryQueue :: "nat option \<Rightarrow> Entry \<Rightarrow> world \<Rightarrow> world option" where
  "send_EntryQueue q entry w =
     (case q of
        None \<Rightarrow> None
      | Some a \<Rightarrow>
          (case entry_chans w a of
             None \<Rightarrow> None
           | Some c \<Rightarrow>
               (case try_send c entry of
                  None \<Rightarrow> None
                | Some c' \<Rightarrow> Some (w\<lparr>entry_chans := (entry_chans w)(a \<mapsto> c')\<rparr>))))"

section \<open>The hook\<close>

text \<open>What a call ends with: a value, an error (the value is nil then) or a panic.\<close>

datatype 'a result = Return 'a | Error error | Panic string

definition NewHook ::
  "string \<Rightarrow> int \<Rightarrow> string \<Rightarrow> string \<Rightarrow> Level \<Rightarrow> bool \<Rightarrow> int \<Rightarrow> world \<Rightarrow> RedisHook result \<times> world" where
  "NewHook host port key format level async bufferSize w =
     (let pool = newRedisConnectionPool host port
      in case conn_Do_PING w of
           Some err \<Rightarrow> (Error (''unable to connect to REDIS: '' @ err), w)
         | None \<Rightarrow>
             (let format = (if ToLower format \<noteq> ''v0'' \<and> ToLower format \<noteq> ''v1''
                            then ''v0'' else format);
                  redisHook =
                    \<lparr>RedisPool = pool, RedisHost = host, RedisKey = key,
                     LogstashFormat = format, RedisPort = 0, Level = level, Async = async,
                     EntryQueue = None, Quit = None\<rparr>
              in if async then
                   (case make_entry_chan bufferSize w of
                      None \<Rightarrow> (Panic ''makechan: size out of range'', w)
                    | Some (q, w) \<Rightarrow>
                        (let redisHook = redisHook\<lparr>EntryQueue := Some q\<rparr>;
                             (quit, w) = make_int_chan w;
                             redisHook = redisHook\<lparr>Quit := Some quit\<rparr>;
                             w = w\<lparr>goroutines := goroutines w @ [redisHook]\<rparr>
                         in (Return redisHook, w)))
                 else (Return redisHook, w)))"

definition processEntry :: "env \<Rightarrow> RedisHook \<Rightarrow> Entry \<Rightarrow> world \<Rightarrow> error option \<times> world" where
  "processEntry env hook entry w =
     (let msg = (if LogstashFormat hook = ''v0'' then V0Msg (createV0Message env entry)
                 else if LogstashFormat hook = ''v1'' then V1Msg (createV1Message env entry)
                 else NilMsg)
      in case json_Marshal msg of
           Inl err \<Rightarrow> (Some (''error creating message for REDIS: '' @ err), w)
         | Inr js \<Rightarrow>
             (case conn_Do_RPUSH (RedisKey hook) js w of
                (Some err, w') \<Rightarrow> (Some (''error sending message to REDIS: '' @ err), w')
              | (None, w') \<Rightarrow> (None, w')))"

definition Fire :: "env \<Rightarrow> RedisHook \<Rightarrow> Entry \<Rightarrow> world \<Rightarrow> error option \<times> world" where
  "Fire env hook entry w =
     (if Async hook then
        (case send_EntryQueue (EntryQueue hook) entry w of
           Some w' \<Rightarrow> (None, w')
         | None \<Rightarrow>
             (None, Println ''Buffer of redis hook's channel is full, log entry discarded'' w))
      else processEntry env hook entry w)"

text \<open>
  The cases of the \<^verbatim>\<open>switch\<close> in \<^verbatim>\<open>Levels\<close>, last first: each appends its level
  and falls through to the next one.
\<close>

definition case_PanicLevel :: "Level list \<Rightarrow> Level list" where
  "case_PanicLevel levels = levels @ [PanicLevel]"

definition case_FatalLevel :: "Level list \<Rightarrow> Level list" where
  "case_FatalLevel levels = case_PanicLevel (levels @ [FatalLevel])"

definition case_ErrorLevel :: "Level list \<Rightarrow> Level list" where
  "case_ErrorLevel levels = case_FatalLevel (levels @ [ErrorLevel])"

definition case_WarnLevel :: "Level list \<Rightarrow> Level list" where
  "case_WarnLevel levels = case_ErrorLevel (levels @ [WarnLevel])"

definition case_InfoLevel :: "Level list \<Rightarrow> Level list" where
  "case_InfoLevel levels = case_WarnLevel (levels @ [InfoLevel])"

definition case_DebugLevel :: "Level list \<Rightarrow> Level list" where
  "case_DebugLevel levels = case_InfoLevel (levels @ [DebugLevel])"

text \<open>\<^verbatim>\<open>make([]logrus.Level, 1)\<close> is a slice of one zero value.\<close>

definition Levels :: "RedisHook \<Rightarrow> Level list" where
  "Levels hook =
     (let levels = replicate 1 (0 :: Level)
      in if RedisHook.Level hook = DebugLevel then case_DebugLevel levels
         else if RedisHook.Level hook = InfoLevel then case_InfoLevel levels
         else if RedisHook.Level hook = WarnLevel then case_WarnLevel levels
         else if RedisHook.Level hook = ErrorLevel then case_ErrorLevel levels
         else if RedisHook.Level hook = FatalLevel then case_FatalLevel levels
         else if RedisHook.Level hook = PanicLevel then case_PanicLevel levels
         else levels)"

section \<open>Terms of the specification\<close>

text \<open>The six levels the \<^verbatim>\<open>switch\<close> of \<^verbatim>\<open>Levels\<close> knows, least severe first.\<close>

definition knownLevels :: "Level list" where
  "knownLevels = [DebugLevel, InfoLevel, WarnLevel, ErrorLevel, FatalLevel, PanicLevel]"

text \<open>
  The specification's ordering debug < info < warn < error < fatal < panic, as a rank;
  a number that is none of the six levels gets the rank 6.
\<close>

definition severity :: "Level \<Rightarrow> nat" where
  "severity l =
     (if l = DebugLevel then 0
      else if l = InfoLevel then 1
      else if l = WarnLevel then 2
      else if l = ErrorLevel then 3
      else if l = FatalLevel then 4
      else if l = PanicLevel then 5
      else 6)"

text \<open>The levels at or more severe than a threshold, in that ordering.\<close>

definition atOrAbove :: "Level \<Rightarrow> Level list" where
  "atOrAbove minLevel = filter (\<lambda>l. severity minLevel \<le> severity l) knownLevels"

text \<open>
  The specification's rule for a custom field: a string is copied, any other value is
  converted to its default display representation.
\<close>

definition display :: "val \<Rightarrow> string" where
  "display v = (case v of VString s \<Rightarrow> s | _ \<Rightarrow> Sprintf_v v)"

text \<open>The members of a serialised object (none for an error or another document).\<close>

definition members :: "error + json \<Rightarrow> (string \<times> json) list" where
  "members r = (case r of Inr (JObject ms) \<Rightarrow> ms | _ \<Rightarrow> [])"

text \<open>
  The renaming from V0 to V1 as the specification words it (only the source host), and
  as the struct tags have it (the source host and the message).
\<close>

definition claimed_v1_name :: "string \<Rightarrow> string" where
  "claimed_v1_name k = (if k = ''@source_host'' then ''host'' else k)"

definition v1_name :: "string \<Rightarrow> string" where
  "v1_name k =
     (if k = ''@source_host'' then ''host'' else if k = ''@message'' then ''message'' else k)"

section \<open>Example values\<close>

text \<open>
  A host named \<^verbatim>\<open>web1\<close>, the entry of the example program (with two of its fields),
  a reachable empty store on a runtime whose allocator's limit is \<open>2 ^ 48\<close> bytes
  with a channel header of 96 bytes and pointers of 8 bytes, and the hook that
  \<^verbatim>\<open>NewHook\<close> builds for the example program's arguments in synchronous mode.
\<close>

definition example_env :: env where
  "example_env =
     \<lparr>os_Hostname = Inr ''web1'', Format_RFC3339Nano = (\<lambda>t. ''2017-06-01T12:00:00Z'')\<rparr>"

definition example_entry :: Entry where
  "example_entry =
     \<lparr>Data = [(''animal'', VString ''walrus''), (''number'', VInt 1)],
      Time = 1496318400000000000, Level = InfoLevel, Message = ''and with fields''\<rparr>"

definition example_world :: world where
  "example_world =
     \<lparr>redis_err = None, redis_lists = (\<lambda>key. []), entry_chans = Map.empty,
      int_chans = Map.empty, next_chan = 0, makechan_limit = 35184372088820,
      goroutines = [], stdout = []\<rparr>"

definition example_hook :: "string \<Rightarrow> Level \<Rightarrow> RedisHook" where
  "example_hook format level =
     \<lparr>RedisPool = \<lparr>hostPort = ''localhost:6379'', MaxIdle = 3, IdleTimeout = 240\<rparr>,
      RedisHost = ''localhost'', RedisKey = ''my_redis_key'', LogstashFormat = format,
      RedisPort = 0, Level = level, Async = False, EntryQueue = None, Quit = None\<rparr>"

text \<open>An async hook whose queue, of capacity 1 at address 0, already holds one entry.\<close>

definition full_hook :: RedisHook where
  "full_hook =
     (example_hook ''v0'' DebugLevel)\<lparr>Async := True, EntryQueue := Some 0, Quit := Some 1\<rparr>"

definition full_world :: world where
  "full_world =
     example_world
       \<lparr>entry_chans :=
          [0 \<mapsto> \<lparr>buf = [example_entry], cap = 1, receiver_parked = False, handed = []\<rparr>],
        int_chans := [1 \<mapsto> \<lparr>buf = [], cap = 0, receiver_parked = False, handed = []\<rparr>],
        next_chan := 2, goroutines := [full_hook]\<rparr>"

text \<open>The diagnostic that \<^verbatim>\<open>Fire\<close> prints when it drops an entry.\<close>

definition discarded :: string where
  "discarded = ''Buffer of redis hook's channel is full, log entry discarded''"

section \<open>The enabled levels\<close>

lemmas Level_defs =
  PanicLevel_def FatalLevel_def ErrorLevel_def WarnLevel_def InfoLevel_def DebugLevel_def

lemmas case_Level_defs =
  case_PanicLevel_def case_FatalLevel_def case_ErrorLevel_def case_WarnLevel_def
  case_InfoLevel_def case_DebugLevel_def

text \<open>
  Claim C2. For each of the six known minimum levels, \<^verbatim>\<open>Levels()\<close> returns the
  zero-valued placeholder followed by exactly the levels at or more severe than the
  threshold in the ordering debug < info < warn < error < fatal < panic; as a set, that
  is the placeholder together with those levels. (For the threshold warn the list is
  the placeholder, warn, error, fatal, panic: see the instance below.)
\<close>

theorem Levels_cascade:
  assumes "RedisHook.Level hook \<in> set knownLevels"
  shows "Levels hook = 0 # atOrAbove (RedisHook.Level hook) \<and>
         set (Levels hook) =
           insert 0 {l \<in> set knownLevels. severity (RedisHook.Level hook) \<le> severity l}"
proof -
  have l: "Levels hook = 0 # atOrAbove (RedisHook.Level hook)"
    using assms
    by (auto simp add: knownLevels_def Levels_def atOrAbove_def severity_def
        case_Level_defs Level_defs)
  show ?thesis
    unfolding l by (auto simp add: atOrAbove_def)
qed

theorem Levels_cascade_witness:
  "RedisHook.Level (example_hook ''v0'' WarnLevel) \<in> set knownLevels \<and>
   Levels (example_hook ''v0'' WarnLevel) =
     [0, WarnLevel, ErrorLevel, FatalLevel, PanicLevel] \<and>
   set (Levels (example_hook ''v0'' WarnLevel)) = {WarnLevel, ErrorLevel, FatalLevel, PanicLevel}"
proof -
  have h: "RedisHook.Level (example_hook ''v0'' WarnLevel) \<in> set knownLevels"
    by (simp add: example_hook_def knownLevels_def)
  have a: "atOrAbove WarnLevel = [WarnLevel, ErrorLevel, FatalLevel, PanicLevel]"
    by (simp add: atOrAbove_def knownLevels_def severity_def Level_defs)
  have k: "RedisHook.Level (example_hook ''v0'' WarnLevel) = WarnLevel"
    by (simp add: example_hook_def)
  from Levels_cascade [OF h] have
    "Levels (example_hook ''v0'' WarnLevel) = 0 # atOrAbove WarnLevel"
    by (simp add: k)
  then have l: "Levels (example_hook ''v0'' WarnLevel) =
      [0, WarnLevel, ErrorLevel, FatalLevel, PanicLevel]"
    by (simp add: a)
  show ?thesis using h unfolding l by (auto simp add: Level_defs)
qed

text \<open>
  Claim C5, as amended. If the minimum level is none of the six known levels,
  \<^verbatim>\<open>Levels()\<close> returns a list of exactly one entry, the zero value of the level
  type; that value is the panic level, which is one of the six known levels.
\<close>

theorem Levels_unknown:
  assumes "RedisHook.Level hook \<notin> set knownLevels"
  shows "Levels hook = [PanicLevel] \<and> PanicLevel = 0 \<and> PanicLevel \<in> set knownLevels"
  using assms by (simp add: knownLevels_def Levels_def PanicLevel_def)

theorem Levels_unknown_witness:
  "RedisHook.Level (example_hook ''v0'' 7) \<notin> set knownLevels \<and>
   Levels (example_hook ''v0'' 7) = [PanicLevel]"
proof -
  have h: "RedisHook.Level (example_hook ''v0'' 7) \<notin> set knownLevels"
    by (simp add: example_hook_def knownLevels_def Level_defs)
  from Levels_unknown [OF h] h show ?thesis by simp
qed

text \<open>
  Claim C5 as the specification states it fails for the minimum level 7: the single
  entry returned is not outside the known levels.
\<close>

theorem Levels_unknown_counterexample:
  "\<not> (RedisHook.Level (example_hook ''v0'' 7) \<notin> set knownLevels \<longrightarrow>
        Levels (example_hook ''v0'' 7) = [0] \<and> (0 :: Level) \<notin> set knownLevels)"
  by (simp add: example_hook_def knownLevels_def Level_defs)

text \<open>
  Claim C10. Whatever the minimum level, the list that \<^verbatim>\<open>Levels()\<close> returns is not
  empty, its first element is the zero value of the level type, the zero value is the
  panic level, and so the panic level is in the list.
\<close>

theorem Levels_zero_is_panic:
  "Levels hook \<noteq> [] \<and> Levels hook ! 0 = 0 \<and> (0 :: Level) = PanicLevel \<and>
   PanicLevel \<in> set (Levels hook)"
  by (simp add: Levels_def Let_def case_Level_defs PanicLevel_def)

section \<open>The formatted envelopes\<close>

text \<open>One pass of the loop stores the displayed value under the key.\<close>

lemma range_Data_step:
  "range_Data ((key, value) # rest) m = range_Data rest (m(key \<mapsto> display value))"
  by (cases "value") (simp_all add: display_def)

lemma range_Data_dom: "dom (range_Data xs m) = dom m \<union> fst ` set xs"
proof (induction xs arbitrary: m)
  case Nil
  show ?case by simp
next
  case (Cons x xs)
  obtain key "value" where x: "x = (key, value)" by (cases x)
  show ?case
    unfolding x range_Data_step Cons.IH by auto
qed

lemma range_Data_other: "k \<notin> fst ` set xs \<Longrightarrow> range_Data xs m k = m k"
proof (induction xs arbitrary: m)
  case Nil
  show ?case by simp
next
  case (Cons x xs)
  obtain key "value" where x: "x = (key, value)" by (cases x)
  from Cons.prems have "k \<noteq> key" and "k \<notin> fst ` set xs"
    by (auto simp add: x)
  then show ?case
    unfolding x range_Data_step by (simp add: Cons.IH)
qed

lemma range_Data_lookup:
  "distinct (map fst xs) \<Longrightarrow> (k, v) \<in> set xs \<Longrightarrow> range_Data xs m k = Some (display v)"
proof (induction xs arbitrary: m)
  case Nil
  then show ?case by simp
next
  case (Cons x xs)
  obtain key "value" where x: "x = (key, value)" by (cases x)
  from Cons.prems(1) have d: "distinct (map fst xs)" and n: "key \<notin> fst ` set xs"
    by (simp_all add: x)
  show ?case
  proof (cases "(k, v) = (key, value)")
    case True
    then show ?thesis
      unfolding x range_Data_step using n by (simp add: range_Data_other)
  next
    case False
    with Cons.prems(2) have "(k, v) \<in> set xs" by (auto simp add: x)
    then show ?thesis
      unfolding x range_Data_step by (rule Cons.IH [OF d])
  qed
qed

lemma CustomFields_createV0Message:
  "LogstashMessageV0.CustomFields (createV0Message env entry) = logEntryToStringMap entry"
  by (simp add: createV0Message_def Let_def)

lemma CustomFields_createV1Message:
  "LogstashMessageV1.CustomFields (createV1Message env entry) = logEntryToStringMap entry"
  by (simp add: createV1Message_def Let_def)

text \<open>
  Claim C7. For every entry (a Go map holds each key once), the custom-fields mapping
  has exactly the keys of the entry's field map, and under each key the value copied
  when it is a string and converted to its default display representation otherwise;
  both envelopes carry that mapping. (For the fields animal = "walrus" and number = 1
  under V0 the mapping is animal = "walrus", number = "1": see the instance below.)
\<close>

theorem custom_fields_stringified:
  assumes "distinct (map fst (Data entry))"
  shows "dom (logEntryToStringMap entry) = fst ` set (Data entry) \<and>
         (\<forall>k v. (k, v) \<in> set (Data entry) \<longrightarrow>
            logEntryToStringMap entry k = Some (display v)) \<and>
         LogstashMessageV0.CustomFields (createV0Message env entry) = logEntryToStringMap entry \<and>
         LogstashMessageV1.CustomFields (createV1Message env entry) = logEntryToStringMap entry"
proof -
  have m: "logEntryToStringMap entry = range_Data (Data entry) Map.empty"
    by (cases "Data entry") (simp_all add: logEntryToStringMap_def)
  have "dom (logEntryToStringMap entry) = fst ` set (Data entry)"
    unfolding m by (simp add: range_Data_dom)
  moreover have "\<forall>k v. (k, v) \<in> set (Data entry) \<longrightarrow>
      logEntryToStringMap entry k = Some (display v)"
    unfolding m using assms by (simp add: range_Data_lookup)
  ultimately show ?thesis
    by (simp add: CustomFields_createV0Message CustomFields_createV1Message)
qed

theorem custom_fields_stringified_witness:
  "distinct (map fst (Data example_entry)) \<and>
   LogstashMessageV0.CustomFields (createV0Message example_env example_entry) =
     [''animal'' \<mapsto> ''walrus'', ''number'' \<mapsto> ''1''] \<and>
   logEntryToStringMap example_entry ''animal'' = Some ''walrus'' \<and>
   logEntryToStringMap example_entry ''number'' = Some ''1''"
proof -
  have h: "distinct (map fst (Data example_entry))"
    by (simp add: example_entry_def)
  note t = custom_fields_stringified [OF h, of example_env]
  have a: "(''animal'', VString ''walrus'') \<in> set (Data example_entry)"
    and n: "(''number'', VInt 1) \<in> set (Data example_entry)"
    by (simp_all add: example_entry_def)
  have da: "display (VString ''walrus'') = ''walrus''"
    and dn: "display (VInt 1) = ''1''"
    by (simp_all add: display_def Sprintf_d_def decimal.simps digit_def)
  from t a da have la: "logEntryToStringMap example_entry ''animal'' = Some ''walrus''"
    by metis
  from t n dn have ln: "logEntryToStringMap example_entry ''number'' = Some ''1''"
    by metis
  from t have dm: "dom (logEntryToStringMap example_entry) = {''animal'', ''number''}"
    by (simp add: example_entry_def)
  have eq: "logEntryToStringMap example_entry =
      [''animal'' \<mapsto> ''walrus'', ''number'' \<mapsto> ''1'']"
  proof (rule ext)
    fix k
    show "logEntryToStringMap example_entry k =
        [''animal'' \<mapsto> ''walrus'', ''number'' \<mapsto> ''1''] k"
    proof (cases "k \<in> {''animal'', ''number''}")
      case True
      then show ?thesis using la ln by auto
    next
      case False
      with dm have "logEntryToStringMap example_entry k = None" by blast
      with False show ?thesis by simp
    qed
  qed
  from t have "LogstashMessageV0.CustomFields (createV0Message example_env example_entry) =
      logEntryToStringMap example_entry"
    by simp
  with h eq la ln show ?thesis by simp
qed

text \<open>
  Claim C6. For every entry formatted under V0, the top-level level member of the
  message is the empty string and its fields block has the entry's severity as a string
  under level, with file and timestamp empty; the serialised object carries them under
  the names \<^verbatim>\<open>@level\<close> and \<^verbatim>\<open>@fields\<close> (\<^verbatim>\<open>file\<close>, \<^verbatim>\<open>level\<close>, \<^verbatim>\<open>timestamp\<close>).
\<close>

theorem V0_level_fields:
  "LogstashMessageV0.Level (createV0Message env entry) = '''' \<and>
   LogstashMessageV0.Fields (createV0Message env entry) =
     \<lparr>MessageFields.File = '''', MessageFields.Level = Level_String (Entry.Level entry),
      MessageFields.Timestamp = ''''\<rparr> \<and>
   map_of (members (json_Marshal (V0Msg (createV0Message env entry)))) ''@level'' =
     Some (JString '''') \<and>
   map_of (members (json_Marshal (V0Msg (createV0Message env entry)))) ''@fields'' =
     Some (JObject
       [(''file'', JString ''''),
        (''level'', JString (Level_String (Entry.Level entry))),
        (''timestamp'', JString '''')])"
  by (simp add: createV0Message_def Let_def LogstashMessageV0_zero_def MessageFields_zero_def
      members_def omitempty_def Marshal_Fields_def)

text \<open>
  Claim C3, as amended. For every entry, the members of the serialised V1 envelope
  are those of the V0 envelope without \<^verbatim>\<open>@level\<close>, with \<^verbatim>\<open>@source_host\<close> renamed to
  \<^verbatim>\<open>host\<close> and \<^verbatim>\<open>@message\<close> renamed to \<^verbatim>\<open>message\<close>, in the same order and with the
  same values; the type member is never set, so \<^verbatim>\<open>@type\<close> is in neither object.
\<close>

theorem V1_shape:
  "members (json_Marshal (V1Msg (createV1Message env entry))) =
     map (\<lambda>(k, v). (v1_name k, v))
       (filter (\<lambda>(k, v). k \<noteq> ''@level'')
          (members (json_Marshal (V0Msg (createV0Message env entry))))) \<and>
   map fst (members (json_Marshal (V0Msg (createV0Message env entry)))) =
     [''@timestamp'', ''@source_host'', ''@message'', ''@level'', ''@fields'', ''@custom_fields''] \<and>
   map fst (members (json_Marshal (V1Msg (createV1Message env entry)))) =
     [''@timestamp'', ''host'', ''message'', ''@fields'', ''@custom_fields''] \<and>
   LogstashMessageV1.Type (createV1Message env entry) = ''''"
  by (simp add: createV0Message_def createV1Message_def Let_def LogstashMessageV0_zero_def
      LogstashMessageV1_zero_def MessageFields_zero_def members_def omitempty_def
      Marshal_Fields_def v1_name_def)

text \<open>
  Claim C3 as the specification states it (only the source host renamed, \<^verbatim>\<open>@message\<close>
  unchanged) fails for the example entry: the member names of the V1 object are not
  those of the V0 object under that renaming.
\<close>

theorem V1_shape_counterexample:
  "\<not> (map fst (members (json_Marshal (V1Msg (createV1Message example_env example_entry)))) =
        map claimed_v1_name
          (filter (\<lambda>k. k \<noteq> ''@level'')
            (map fst
              (members (json_Marshal (V0Msg (createV0Message example_env example_entry)))))))"
  by (simp add: createV0Message_def createV1Message_def Let_def LogstashMessageV0_zero_def
      LogstashMessageV1_zero_def MessageFields_zero_def members_def omitempty_def
      Marshal_Fields_def claimed_v1_name_def)

section \<open>Dispatch and construction\<close>

text \<open>
  Claim C4. In async mode \<^verbatim>\<open>Fire\<close> returns nil for every entry and every state of
  the queue; in particular, when the queue is at capacity (and no receiver is parked)
  the entry is dropped, the diagnostic is printed, nothing else changes, and the result
  is still nil.
\<close>

theorem Fire_async_returns_nil:
  assumes "Async hook"
  shows "fst (Fire env hook entry w) = None \<and>
         (\<forall>a c. EntryQueue hook = Some a \<and> entry_chans w a = Some c \<and>
                \<not> receiver_parked c \<and> cap c \<le> length (buf c) \<longrightarrow>
            Fire env hook entry w = (None, w\<lparr>stdout := stdout w @ [discarded]\<rparr>))"
  using assms
  by (auto simp add: Fire_def send_EntryQueue_def try_send_def Println_def discarded_def
      split: option.splits)

theorem Fire_async_returns_nil_witness:
  "Async full_hook \<and>
   Fire example_env full_hook example_entry full_world =
     (None, full_world\<lparr>stdout := [discarded]\<rparr>)"
proof -
  have h: "Async full_hook" by (simp add: full_hook_def)
  have q: "EntryQueue full_hook = Some 0 \<and>
      entry_chans full_world 0 =
        Some \<lparr>buf = [example_entry], cap = 1, receiver_parked = False, handed = []\<rparr> \<and>
      \<not> receiver_parked
          \<lparr>buf = [example_entry], cap = 1, receiver_parked = False, handed = []\<rparr> \<and>
      cap \<lparr>buf = [example_entry], cap = 1, receiver_parked = False, handed = []\<rparr>
        \<le> length (buf \<lparr>buf = [example_entry], cap = 1, receiver_parked = False, handed = []\<rparr>)"
    by (simp add: full_hook_def full_world_def)
  have s: "stdout full_world = []" by (simp add: full_world_def example_world_def)
  from Fire_async_returns_nil [OF h, of example_env example_entry full_world] q
  have "Fire example_env full_hook example_entry full_world =
      (None, full_world\<lparr>stdout := stdout full_world @ [discarded]\<rparr>)"
    by blast
  with h s show ?thesis by simp
qed

text \<open>
  Claim C8, as amended. If the PING of the construction-time check fails, \<^verbatim>\<open>NewHook\<close>
  returns the error \<^verbatim>\<open>unable to connect to REDIS: ...\<close> and no hook, and changes
  nothing. If it succeeds, \<^verbatim>\<open>NewHook\<close> returns a hook and no error, provided that in
  async mode the queue capacity is one the channel allocation accepts (not negative and
  not beyond the runtime's limit); for an async capacity outside that range
  \<^verbatim>\<open>NewHook\<close> panics after the successful PING and returns neither a hook nor an
  error.
\<close>

theorem NewHook_PING:
  shows "(\<forall>err. redis_err w = Some err \<longrightarrow>
            NewHook host port key format level async bufferSize w =
              (Error (''unable to connect to REDIS: '' @ err), w)) \<and>
         (redis_err w = None \<and>
          (async \<longrightarrow> 0 \<le> bufferSize \<and> bufferSize \<le> int (makechan_limit w)) \<longrightarrow>
            (\<exists>hook. fst (NewHook host port key format level async bufferSize w) = Return hook)) \<and>
         (redis_err w = None \<and> async \<and>
          (bufferSize < 0 \<or> int (makechan_limit w) < bufferSize) \<longrightarrow>
            NewHook host port key format level async bufferSize w =
              (Panic ''makechan: size out of range'', w))"
proof -
  have f: "NewHook host port key format level async bufferSize w =
      (Error (''unable to connect to REDIS: '' @ err), w)"
    if "redis_err w = Some err" for err
    using that by (simp add: NewHook_def conn_Do_PING_def)
  have s: "\<exists>hook. fst (NewHook host port key format level async bufferSize w) = Return hook"
    if "redis_err w = None"
      and "async \<longrightarrow> 0 \<le> bufferSize \<and> bufferSize \<le> int (makechan_limit w)"
    using that
    by (cases async)
      (auto simp add: NewHook_def conn_Do_PING_def Let_def make_entry_chan_def
        make_int_chan_def)
  have p: "NewHook host port key format level async bufferSize w =
      (Panic ''makechan: size out of range'', w)"
    if "redis_err w = None" and "async"
      and "bufferSize < 0 \<or> int (makechan_limit w) < bufferSize"
    using that by (auto simp add: NewHook_def conn_Do_PING_def Let_def make_entry_chan_def)
  from f s p show ?thesis by blast
qed

theorem NewHook_PING_witness:
  "redis_err (example_world\<lparr>redis_err := Some ''dial tcp: connection refused''\<rparr>) =
     Some ''dial tcp: connection refused'' \<and>
   NewHook ''localhost'' 6379 ''my_redis_key'' ''v0'' DebugLevel False 1000
     (example_world\<lparr>redis_err := Some ''dial tcp: connection refused''\<rparr>) =
     (Error ''unable to connect to REDIS: dial tcp: connection refused'',
      example_world\<lparr>redis_err := Some ''dial tcp: connection refused''\<rparr>) \<and>
   redis_err example_world = None \<and>
   (0::int) \<le> 1000 \<and> (1000::int) \<le> int (makechan_limit example_world) \<and>
   (\<exists>hook. fst (NewHook ''localhost'' 6379 ''my_redis_key'' ''v0'' DebugLevel True 1000
      example_world) = Return hook) \<and>
   int (makechan_limit example_world) < 4611686018427387904 \<and>
   NewHook ''localhost'' 6379 ''my_redis_key'' ''v0'' DebugLevel True 4611686018427387904
     example_world = (Panic ''makechan: size out of range'', example_world)"
proof -
  have d: "redis_err (example_world\<lparr>redis_err := Some ''dial tcp: connection refused''\<rparr>) =
      Some ''dial tcp: connection refused''"
    by simp
  have u: "redis_err example_world = None" by (simp add: example_world_def)
  have b: "(0::int) \<le> 1000 \<and> (1000::int) \<le> int (makechan_limit example_world)"
    by (simp add: example_world_def)
  have g: "int (makechan_limit example_world) < 4611686018427387904"
    by (simp add: example_world_def)
  from NewHook_PING [of "example_world\<lparr>redis_err := Some ''dial tcp: connection refused''\<rparr>"
      "''localhost''" 6379 "''my_redis_key''" "''v0''" DebugLevel False 1000] d
  have 1: "NewHook ''localhost'' 6379 ''my_redis_key'' ''v0'' DebugLevel False 1000
     (example_world\<lparr>redis_err := Some ''dial tcp: connection refused''\<rparr>) =
     (Error ''unable to connect to REDIS: dial tcp: connection refused'',
      example_world\<lparr>redis_err := Some ''dial tcp: connection refused''\<rparr>)"
    by simp
  from NewHook_PING [of example_world "''localhost''" 6379 "''my_redis_key''" "''v0''"
      DebugLevel True 1000] u b
  have 2: "\<exists>hook. fst (NewHook ''localhost'' 6379 ''my_redis_key'' ''v0'' DebugLevel True 1000
      example_world) = Return hook"
    by blast
  from NewHook_PING [of example_world "''localhost''" 6379 "''my_redis_key''" "''v0''"
      DebugLevel True 4611686018427387904] u g
  have 3: "NewHook ''localhost'' 6379 ''my_redis_key'' ''v0'' DebugLevel True
      4611686018427387904 example_world = (Panic ''makechan: size out of range'', example_world)"
    by blast
  from d 1 u b 2 g 3 show ?thesis by blast
qed

text \<open>
  Claim C8 as the specification states it (a successful PING always gives a hook)
  fails in async mode with the queue capacity -1: the store answers the PING, and
  \<^verbatim>\<open>NewHook\<close> ends in the panic of the channel allocation.
\<close>

theorem NewHook_PING_counterexample:
  "redis_err example_world = None \<and>
   fst (NewHook ''localhost'' 6379 ''my_redis_key'' ''v0'' DebugLevel True (- 1) example_world) =
     Panic ''makechan: size out of range'' \<and>
   fst (NewHook ''localhost'' 6379 ''my_redis_key'' ''v0'' DebugLevel True (- 1) example_world) \<noteq>
     Return (example_hook ''v0'' DebugLevel)"
  by (simp add: NewHook_def conn_Do_PING_def Let_def make_entry_chan_def example_world_def)

text \<open>
  Claim C9. A format string that is neither \<^verbatim>\<open>v0\<close> nor \<^verbatim>\<open>v1\<close> in lower case gives
  the same result of \<^verbatim>\<open>NewHook\<close> as \<^verbatim>\<open>"v0"\<close>: the hook stores the format
  \<^verbatim>\<open>"v0"\<close>, and processing any entry with it serialises the V0 message of the entry
  and pushes that to the hook's key.
\<close>

theorem NewHook_unrecognized_format:
  assumes "ToLower format \<noteq> ''v0''" and "ToLower format \<noteq> ''v1''"
  shows "NewHook host port key format level async bufferSize w =
           NewHook host port key ''v0'' level async bufferSize w \<and>
         (\<forall>hook. fst (NewHook host port key format level async bufferSize w) = Return hook \<longrightarrow>
            LogstashFormat hook = ''v0'' \<and>
            (\<forall>env entry w'. processEntry env hook entry w' =
               (case json_Marshal (V0Msg (createV0Message env entry)) of
                  Inl err \<Rightarrow> (Some (''error creating message for REDIS: '' @ err), w')
                | Inr js \<Rightarrow>
                    (case conn_Do_RPUSH key js w' of
                       (Some err, w'') \<Rightarrow> (Some (''error sending message to REDIS: '' @ err), w'')
                     | (None, w'') \<Rightarrow> (None, w'')))))"
proof -
  have l: "ToLower ''v0'' = ''v0''"
    by (simp add: ToLower_def ToLower_byte_def)
  have 1: "NewHook host port key format level async bufferSize w =
           NewHook host port key ''v0'' level async bufferSize w"
    using assms by (simp add: NewHook_def l)
  have 2: "LogstashFormat hook = ''v0'' \<and> RedisKey hook = key"
    if "fst (NewHook host port key ''v0'' level async bufferSize w) = Return hook" for hook
    using that
    by (auto simp add: NewHook_def l Let_def make_entry_chan_def make_int_chan_def
        split: option.splits if_splits)
  have 3: "processEntry env hook entry w' =
       (case json_Marshal (V0Msg (createV0Message env entry)) of
          Inl err \<Rightarrow> (Some (''error creating message for REDIS: '' @ err), w')
        | Inr js \<Rightarrow>
            (case conn_Do_RPUSH key js w' of
               (Some err, w'') \<Rightarrow> (Some (''error sending message to REDIS: '' @ err), w'')
             | (None, w'') \<Rightarrow> (None, w'')))"
    if "LogstashFormat hook = ''v0''" and "RedisKey hook = key" for hook env entry w'
    using that by (simp add: processEntry_def)
  show ?thesis
    unfolding 1 using 2 3 by blast
qed

theorem NewHook_unrecognized_format_witness:
  "ToLower ''bogus'' \<noteq> ''v0'' \<and> ToLower ''bogus'' \<noteq> ''v1'' \<and>
   NewHook ''localhost'' 6379 ''my_redis_key'' ''bogus'' DebugLevel False 1000 example_world =
     (Return (example_hook ''v0'' DebugLevel), example_world) \<and>
   processEntry example_env (example_hook ''v0'' DebugLevel) example_entry example_world =
     (None, example_world\<lparr>redis_lists := (\<lambda>key. [])(''my_redis_key'' :=
        [JObject
          [(''@timestamp'', JString ''2017-06-01T12:00:00Z''),
           (''@source_host'', JString ''web1''),
           (''@message'', JString ''and with fields''),
           (''@level'', JString ''''),
           (''@fields'', JObject [(''file'', JString ''''), (''level'', JString ''info''),
              (''timestamp'', JString '''')]),
           (''@custom_fields'',
            JStringMap [''animal'' \<mapsto> ''walrus'', ''number'' \<mapsto> ''1''])]])\<rparr>)"
proof -
  have a: "ToLower ''bogus'' \<noteq> ''v0''" and b: "ToLower ''bogus'' \<noteq> ''v1''"
    by (simp_all add: ToLower_def ToLower_byte_def)
  have v: "NewHook ''localhost'' 6379 ''my_redis_key'' ''v0'' DebugLevel False 1000 example_world =
     (Return (example_hook ''v0'' DebugLevel), example_world)"
    by (simp add: NewHook_def conn_Do_PING_def example_world_def example_hook_def
        ToLower_def ToLower_byte_def newRedisConnectionPool_def Sprintf_d_def decimal.simps
        digit_def)
  note t = NewHook_unrecognized_format [OF a b, where host = "''localhost''" and port = 6379
      and key = "''my_redis_key''" and level = DebugLevel and async = False
      and bufferSize = 1000 and w = example_world]
  from t v have n: "NewHook ''localhost'' 6379 ''my_redis_key'' ''bogus'' DebugLevel False 1000
      example_world = (Return (example_hook ''v0'' DebugLevel), example_world)"
    by simp
  from t n have "processEntry example_env (example_hook ''v0'' DebugLevel) example_entry
      example_world =
     (case json_Marshal (V0Msg (createV0Message example_env example_entry)) of
        Inl err \<Rightarrow> (Some (''error creating message for REDIS: '' @ err), example_world)
      | Inr js \<Rightarrow>
          (case conn_Do_RPUSH ''my_redis_key'' js example_world of
             (Some err, w'') \<Rightarrow> (Some (''error sending message to REDIS: '' @ err), w'')
           | (None, w'') \<Rightarrow> (None, w'')))"
    by simp
  also have "\<dots> =
     (None, example_world\<lparr>redis_lists := (\<lambda>key. [])(''my_redis_key'' :=
        [JObject
          [(''@timestamp'', JString ''2017-06-01T12:00:00Z''),
           (''@source_host'', JString ''web1''),
           (''@message'', JString ''and with fields''),
           (''@level'', JString ''''),
           (''@fields'', JObject [(''file'', JString ''''), (''level'', JString ''info''),
              (''timestamp'', JString '''')]),
           (''@custom_fields'',
            JStringMap [''animal'' \<mapsto> ''walrus'', ''number'' \<mapsto> ''1''])]])\<rparr>)"
    by (simp add: conn_Do_RPUSH_def createV0Message_def Let_def LogstashMessageV0_zero_def
        MessageFields_zero_def omitempty_def Marshal_Fields_def reportHostname_def
        example_env_def Level_String_def Level_defs example_world_def example_entry_def
        logEntryToStringMap_def Sprintf_d_def decimal.simps digit_def)
  finally show ?thesis using a b n by simp
qed

text \<open>
  Claim C1, on the code. \<^verbatim>\<open>NewHook\<close> accepts the format \<^verbatim>\<open>"V1"\<close> (its lower case
  is \<^verbatim>\<open>v1\<close>) but stores it as written, and the \<^verbatim>\<open>switch\<close> of \<^verbatim>\<open>processEntry\<close>
  matches \<^verbatim>\<open>"v0"\<close> and \<^verbatim>\<open>"v1"\<close> only: for the example entry the hook built with
  \<^verbatim>\<open>"V1"\<close> pushes the document \<^verbatim>\<open>null\<close>, the hook built with \<^verbatim>\<open>"v1"\<close> pushes
  the V1 envelope, and the two calls of \<^verbatim>\<open>Fire\<close> differ.
\<close>

theorem mixed_case_format_pushes_null:
  "NewHook ''localhost'' 6379 ''my_redis_key'' ''V1'' DebugLevel False 1000 example_world =
     (Return (example_hook ''V1'' DebugLevel), example_world) \<and>
   NewHook ''localhost'' 6379 ''my_redis_key'' ''v1'' DebugLevel False 1000 example_world =
     (Return (example_hook ''v1'' DebugLevel), example_world) \<and>
   Fire example_env (example_hook ''V1'' DebugLevel) example_entry example_world =
     (None, example_world\<lparr>redis_lists := (\<lambda>key. [])(''my_redis_key'' := [JNull])\<rparr>) \<and>
   Fire example_env (example_hook ''v1'' DebugLevel) example_entry example_world =
     (None, example_world\<lparr>redis_lists := (\<lambda>key. [])(''my_redis_key'' :=
        [JObject
          [(''@timestamp'', JString ''2017-06-01T12:00:00Z''),
           (''host'', JString ''web1''),
           (''message'', JString ''and with fields''),
           (''@fields'', JObject [(''file'', JString ''''), (''level'', JString ''info''),
              (''timestamp'', JString '''')]),
           (''@custom_fields'',
            JStringMap [''animal'' \<mapsto> ''walrus'', ''number'' \<mapsto> ''1''])]])\<rparr>) \<and>
   Fire example_env (example_hook ''V1'' DebugLevel) example_entry example_world \<noteq>
     Fire example_env (example_hook ''v1'' DebugLevel) example_entry example_world"
proof -
  have n: "\<And>f. NewHook ''localhost'' 6379 ''my_redis_key'' f DebugLevel False 1000 example_world =
     (Return (example_hook (if ToLower f \<noteq> ''v0'' \<and> ToLower f \<noteq> ''v1'' then ''v0'' else f)
        DebugLevel), example_world)"
    by (simp add: NewHook_def conn_Do_PING_def example_world_def example_hook_def
        newRedisConnectionPool_def Sprintf_d_def decimal.simps digit_def)
  have u: "Fire example_env (example_hook ''V1'' DebugLevel) example_entry example_world =
     (None, example_world\<lparr>redis_lists := (\<lambda>key. [])(''my_redis_key'' := [JNull])\<rparr>)"
    by (simp add: Fire_def example_hook_def processEntry_def conn_Do_RPUSH_def example_world_def)
  have l: "Fire example_env (example_hook ''v1'' DebugLevel) example_entry example_world =
     (None, example_world\<lparr>redis_lists := (\<lambda>key. [])(''my_redis_key'' :=
        [JObject
          [(''@timestamp'', JString ''2017-06-01T12:00:00Z''),
           (''host'', JString ''web1''),
           (''message'', JString ''and with fields''),
           (''@fields'', JObject [(''file'', JString ''''), (''level'', JString ''info''),
              (''timestamp'', JString '''')]),
           (''@custom_fields'',
            JStringMap [''animal'' \<mapsto> ''walrus'', ''number'' \<mapsto> ''1''])]])\<rparr>)"
    by (simp add: Fire_def example_hook_def processEntry_def conn_Do_RPUSH_def
        createV1Message_def Let_def LogstashMessageV1_zero_def MessageFields_zero_def
        omitempty_def Marshal_Fields_def reportHostname_def example_env_def
        Level_String_def Level_defs example_world_def example_entry_def
        logEntryToStringMap_def Sprintf_d_def decimal.simps digit_def)
  have "Fire example_env (example_hook ''V1'' DebugLevel) example_entry example_world \<noteq>
     Fire example_env (example_hook ''v1'' DebugLevel) example_entry example_world"
  proof
    assume e: "Fire example_env (example_hook ''V1'' DebugLevel) example_entry example_world =
      Fire example_env (example_hook ''v1'' DebugLevel) example_entry example_world"
    have "redis_lists (snd (Fire example_env (example_hook ''V1'' DebugLevel) example_entry
        example_world)) ''my_redis_key'' = [JNull]"
      unfolding u by simp
    moreover have "redis_lists (snd (Fire example_env (example_hook ''v1'' DebugLevel)
        example_entry example_world)) ''my_redis_key'' \<noteq> [JNull]"
      unfolding l by simp
    ultimately show False using e by simp
  qed
  moreover have "ToLower ''V1'' = ''v1''" and "ToLower ''v1'' = ''v1''"
    by (simp_all add: ToLower_def ToLower_byte_def)
  ultimately show ?thesis
    using n [of "''V1''"] n [of "''v1''"] u l by simp
qed

end
